theory Spec2Isabelle
  imports Main "HOL-Library.Char_ord" "HOL-Library.List_Lexorder"
begin

unbundle bit_operations_syntax

section \<open>The atom-selection evaluator of moleculekit\<close>

text \<open>
  This theory embeds \<^verbatim>\<open>traverse_ast\<close> of
  \<^verbatim>\<open>moleculekit/atomselect/atomselect.py\<close>: the post-order evaluator that turns the
  syntax tree of an atom selection into a boolean mask over the atoms of a molecule.

  The evaluator is dynamically typed Python on top of numpy.  What the embedding fixes:
  \<^item> numpy arrays live in a store and are passed by reference, so that a result that
    \<^emph>\<open>is\<close> one of the molecule's arrays (and not a copy of it) is visible as such;
  \<^item> every \<^verbatim>\<open>raise\<close> of the source and every Python exception of an indexing,
    a dictionary lookup or a numpy type check is a value \<open>Raises e\<close>;
  \<^item> the collaborators that are not part of the evaluator are parameters, collected in
    the record \<open>externals\<close>: the regular-expression engine, the distance primitive
    \<^verbatim>\<open>within_distance\<close>, floating-point comparison and numpy's numeric kernels;
  \<^item> where Python's dynamic typing leaves the typed fragment described here (an array
    where the grammar puts a keyword, a source selection that is not a boolean mask),
    the outcome is \<open>Unmodelled\<close>: no theorem below counts it as a result or as an error.
\<close>

subsection \<open>Outcomes\<close>

datatype error =
    RuntimeError string
  | TypeError
  | ValueError
  | IndexError
  | KeyError string
  | AttributeError string
  | UnboundLocalError

datatype 'a outcome = Returns 'a | Raises error | Unmodelled

fun and_then :: "'a outcome \<Rightarrow> ('a \<Rightarrow> 'b outcome) \<Rightarrow> 'b outcome" where
  "and_then (Returns x) f = f x"
| "and_then (Raises e) f = Raises e"
| "and_then Unmodelled f = Unmodelled"

subsection \<open>Values\<close>

text \<open>
  \<open>'f\<close> is the type of floating-point numbers; it is never inspected except through
  the operations of \<open>externals\<close>.  Integer arrays hold values of numpy's \<^verbatim>\<open>int64\<close>,
  string arrays are the object arrays of Python strings that the molecule stores.
\<close>

datatype 'f scalar = IntV int | FloatV 'f | StrV string | BoolV bool

datatype 'f ndarray =
    BoolArr "bool list"
  | IntArr "int list"
  | FloatArr "'f list"
  | StrArr "string list"

text \<open>The content of a value: an array, a scalar, or a Python list of scalars.\<close>

datatype 'f data = A "'f ndarray" | S "'f scalar" | L "'f scalar list"

type_synonym addr = nat

text \<open>
  A value as the evaluator holds it: a reference to an array of the store, a view
  \<^verbatim>\<open>coords[:, k, frame]\<close> into a coordinate tensor of the store, or an immediate
  scalar or list.
\<close>

datatype 'f pyval =
    Arr addr
  | AxisView addr nat nat
  | Sc "'f scalar"
  | Ls "'f scalar list"

text \<open>
  An AST node is the tuple \<^verbatim>\<open>(operation, child, ...)\<close>; a child is a nested tuple or
  a literal (a scalar or a list of scalars).
\<close>

datatype 'f node = Node string "'f child list"
  and 'f child = Sub "'f node" | Lit "'f scalar" | LitList "'f scalar list"

subsection \<open>External collaborators\<close>

datatype ufunc =
    Negative | Absolute | Multiply | Sqrt | Add | Subtract | Divide | Remainder
  | Equal | NotEqual | Less | Greater | LessEqual | GreaterEqual
  | BitwiseAnd | BitwiseOr | Invert | Isin | Unique | GetItem

text \<open>
  \<^item> \<open>re_match p s\<close>: whether \<^verbatim>\<open>re.match(p, s)\<close> finds a match (it raises on a
    pattern that does not compile);
  \<^item> \<open>within_distance coords cutoff idx lo hi mask\<close>: the distance primitive; it
    receives the coordinates of the active frame, the cutoff, the indices of the source
    atoms, their bounding box and the mask to fill, and its result is the filled mask;
  \<^item> \<open>numpy u args\<close>: the numpy (or Python) operator \<open>u\<close> on operands whose
    behaviour is not written out here, in particular all arithmetic and comparison of
    numbers;
  \<^item> \<open>float_lt0 x\<close>, \<open>float_ge0 x\<close>: the comparisons \<^verbatim>\<open>x < 0\<close> and
    \<^verbatim>\<open>x >= 0\<close> of a float; \<open>float_min\<close>, \<open>float_max\<close>: minimum and maximum of a
    non-empty column of floats.
\<close>

record 'f externals =
  re_match :: "string \<Rightarrow> string \<Rightarrow> bool outcome"
  within_distance ::
    "'f list list \<Rightarrow> 'f data \<Rightarrow> nat list \<Rightarrow> 'f list \<Rightarrow> 'f list \<Rightarrow> bool list \<Rightarrow> bool list outcome"
  numpy :: "ufunc \<Rightarrow> 'f data list \<Rightarrow> 'f data outcome"
  float_lt0 :: "'f \<Rightarrow> bool"
  float_ge0 :: "'f \<Rightarrow> bool"
  float_min :: "'f list \<Rightarrow> 'f"
  float_max :: "'f list \<Rightarrow> 'f"

subsection \<open>The numpy operations the evaluator relies on\<close>

text \<open>
  Two one-dimensional arrays combine elementwise when they have the same length or one
  of them has length one; any other pair of lengths is numpy's broadcasting
  \<^verbatim>\<open>ValueError\<close>.
\<close>

definition broadcast :: "'a list \<Rightarrow> 'b list \<Rightarrow> ('a \<times> 'b) list outcome" where
  "broadcast xs ys =
     (if length xs = length ys then Returns (zip xs ys)
      else if length xs = 1 then Returns (map (Pair (hd xs)) ys)
      else if length ys = 1 then Returns (map (\<lambda>x. (x, hd ys)) xs)
      else Raises ValueError)"

definition elementwise :: "('a \<Rightarrow> 'b \<Rightarrow> 'c) \<Rightarrow> 'a list \<Rightarrow> 'b list \<Rightarrow> 'c list outcome" where
  "elementwise f xs ys = and_then (broadcast xs ys) (\<lambda>ps. Returns (map (\<lambda>(x, y). f x y) ps))"

text \<open>
  \<^verbatim>\<open>~x\<close>: the complement of a boolean array, the bitwise complement of an integer
  array; numpy has no such loop for floats and raises \<^verbatim>\<open>TypeError\<close>.
\<close>

fun np_invert :: "'f externals \<Rightarrow> 'f data \<Rightarrow> 'f data outcome" where
  "np_invert ext (A (BoolArr m)) = Returns (A (BoolArr (map Not m)))"
| "np_invert ext (A (IntArr xs)) = Returns (A (IntArr (map (\<lambda>x. NOT x) xs)))"
| "np_invert ext (A (FloatArr xs)) = Raises TypeError"
| "np_invert ext x = numpy ext Invert [x]"

text \<open>
  \<^verbatim>\<open>x & y\<close> and \<^verbatim>\<open>x | y\<close>, given the boolean and the integer version of the
  operator.  A boolean array meeting an integer array is promoted to 0 and 1.  A float
  array has no bitwise loop: the type check fails before any broadcasting.
\<close>

fun np_bitwise ::
  "(bool \<Rightarrow> bool \<Rightarrow> bool) \<Rightarrow> (int \<Rightarrow> int \<Rightarrow> int) \<Rightarrow> ufunc \<Rightarrow> 'f externals \<Rightarrow>
   'f data \<Rightarrow> 'f data \<Rightarrow> 'f data outcome" where
  "np_bitwise fb fi u ext (A (BoolArr a)) (A (BoolArr b)) =
     and_then (elementwise fb a b) (\<lambda>r. Returns (A (BoolArr r)))"
| "np_bitwise fb fi u ext (A (BoolArr a)) (A (IntArr b)) =
     and_then (elementwise (\<lambda>p q. fi (of_bool p) q) a b) (\<lambda>r. Returns (A (IntArr r)))"
| "np_bitwise fb fi u ext (A (IntArr a)) (A (BoolArr b)) =
     and_then (elementwise (\<lambda>p q. fi p (of_bool q)) a b) (\<lambda>r. Returns (A (IntArr r)))"
| "np_bitwise fb fi u ext (A (IntArr a)) (A (IntArr b)) =
     and_then (elementwise fi a b) (\<lambda>r. Returns (A (IntArr r)))"
| "np_bitwise fb fi u ext (A (FloatArr a)) (A (BoolArr b)) = Raises TypeError"
| "np_bitwise fb fi u ext (A (FloatArr a)) (A (IntArr b)) = Raises TypeError"
| "np_bitwise fb fi u ext (A (FloatArr a)) (A (FloatArr b)) = Raises TypeError"
| "np_bitwise fb fi u ext (A (BoolArr a)) (A (FloatArr b)) = Raises TypeError"
| "np_bitwise fb fi u ext (A (IntArr a)) (A (FloatArr b)) = Raises TypeError"
| "np_bitwise fb fi u ext x y = numpy ext u [x, y]"

definition np_and :: "'f externals \<Rightarrow> 'f data \<Rightarrow> 'f data \<Rightarrow> 'f data outcome" where
  "np_and = np_bitwise (\<lambda>p q. p \<and> q) (\<lambda>p q. p AND q) BitwiseAnd"

definition np_or :: "'f externals \<Rightarrow> 'f data \<Rightarrow> 'f data \<Rightarrow> 'f data outcome" where
  "np_or = np_bitwise (\<lambda>p q. p \<or> q) (\<lambda>p q. p OR q) BitwiseOr"

text \<open>
  \<^verbatim>\<open>x == y\<close> and \<^verbatim>\<open>x != y\<close> of an array and a scalar: elementwise on a string
  array against a string and on an integer array against an integer.
\<close>

fun np_equal :: "'f externals \<Rightarrow> 'f data \<Rightarrow> 'f data \<Rightarrow> 'f data outcome" where
  "np_equal ext (A (StrArr xs)) (S (StrV y)) = Returns (A (BoolArr (map (\<lambda>x. x = y) xs)))"
| "np_equal ext (A (IntArr xs)) (S (IntV y)) = Returns (A (BoolArr (map (\<lambda>x. x = y) xs)))"
| "np_equal ext x y = numpy ext Equal [x, y]"

fun np_not_equal :: "'f externals \<Rightarrow> 'f data \<Rightarrow> 'f data \<Rightarrow> 'f data outcome" where
  "np_not_equal ext (A (StrArr xs)) (S (StrV y)) = Returns (A (BoolArr (map (\<lambda>x. x \<noteq> y) xs)))"
| "np_not_equal ext (A (IntArr xs)) (S (IntV y)) = Returns (A (BoolArr (map (\<lambda>x. x \<noteq> y) xs)))"
| "np_not_equal ext x y = numpy ext NotEqual [x, y]"

text \<open>
  \<^verbatim>\<open>np.isin(x, y)\<close>: for each element of \<open>x\<close> whether it occurs in \<open>y\<close>, where \<open>y\<close>
  is a list of literals of the element type of \<open>x\<close> or an array of that type.
\<close>

fun is_str :: "'f scalar \<Rightarrow> bool" where
  "is_str (StrV s) = True"
| "is_str v = False"

fun is_int :: "'f scalar \<Rightarrow> bool" where
  "is_int (IntV n) = True"
| "is_int v = False"

fun np_isin :: "'f externals \<Rightarrow> 'f data \<Rightarrow> 'f data \<Rightarrow> 'f data outcome" where
  "np_isin ext (A (StrArr xs)) (L ys) =
     (if list_all is_str ys then Returns (A (BoolArr (map (\<lambda>x. StrV x \<in> set ys) xs)))
      else numpy ext Isin [A (StrArr xs), L ys])"
| "np_isin ext (A (IntArr xs)) (L ys) =
     (if list_all is_int ys then Returns (A (BoolArr (map (\<lambda>x. IntV x \<in> set ys) xs)))
      else numpy ext Isin [A (IntArr xs), L ys])"
| "np_isin ext (A (StrArr xs)) (A (StrArr vs)) = Returns (A (BoolArr (map (\<lambda>x. x \<in> set vs) xs)))"
| "np_isin ext (A (IntArr xs)) (A (IntArr vs)) = Returns (A (BoolArr (map (\<lambda>x. x \<in> set vs) xs)))"
| "np_isin ext (A (BoolArr xs)) (A (BoolArr vs)) = Returns (A (BoolArr (map (\<lambda>x. x \<in> set vs) xs)))"
| "np_isin ext x y = numpy ext Isin [x, y]"

text \<open>\<^verbatim>\<open>np.unique(x)\<close>: the sorted distinct elements.\<close>

fun np_unique :: "'f externals \<Rightarrow> 'f data \<Rightarrow> 'f data outcome" where
  "np_unique ext (A (IntArr xs)) = Returns (A (IntArr (sort (remdups xs))))"
| "np_unique ext (A (StrArr xs)) = Returns (A (StrArr (sort (remdups xs))))"
| "np_unique ext (A (BoolArr xs)) = Returns (A (BoolArr (sort (remdups xs))))"
| "np_unique ext x = numpy ext Unique [x]"

text \<open>
  \<^verbatim>\<open>x[sel]\<close> with a boolean mask: the elements of \<open>x\<close> at the positions where the
  mask is true; a mask of another length is an \<^verbatim>\<open>IndexError\<close>.
\<close>

definition select :: "bool list \<Rightarrow> 'a list \<Rightarrow> 'a list" where
  "select m xs = map snd (filter fst (zip m xs))"

fun size_of :: "'f ndarray \<Rightarrow> nat" where
  "size_of (BoolArr xs) = length xs"
| "size_of (IntArr xs) = length xs"
| "size_of (FloatArr xs) = length xs"
| "size_of (StrArr xs) = length xs"

fun masked :: "bool list \<Rightarrow> 'f ndarray \<Rightarrow> 'f ndarray" where
  "masked m (BoolArr xs) = BoolArr (select m xs)"
| "masked m (IntArr xs) = IntArr (select m xs)"
| "masked m (FloatArr xs) = FloatArr (select m xs)"
| "masked m (StrArr xs) = StrArr (select m xs)"

fun np_getitem :: "'f externals \<Rightarrow> 'f data \<Rightarrow> 'f data \<Rightarrow> 'f data outcome" where
  "np_getitem ext (A x) (A (BoolArr m)) =
     (if length m = size_of x then Returns (A (masked m x)) else Raises IndexError)"
| "np_getitem ext x sel = numpy ext GetItem [x, sel]"

subsection \<open>The value matcher\<close>

text \<open>\<^verbatim>\<open>sub in s\<close> for two strings.\<close>

primrec contains :: "string \<Rightarrow> string \<Rightarrow> bool" where
  "contains sub [] = (sub = [])"
| "contains sub (c # cs) = (take (length sub) (c # cs) = sub \<or> contains sub cs)"

fun isinstance_list :: "'f data \<Rightarrow> bool" where
  "isinstance_list (L ys) = True"
| "isinstance_list y = False"

fun isinstance_str :: "'f data \<Rightarrow> bool" where
  "isinstance_str (S (StrV s)) = True"
| "isinstance_str y = False"

text \<open>\<^verbatim>\<open>".*" in y\<close>, read where \<open>y\<close> is a string.\<close>

fun has_wildcard :: "'f data \<Rightarrow> bool" where
  "has_wildcard (S (StrV s)) = contains ''.*'' s"
| "has_wildcard y = False"

text \<open>
  \<^verbatim>\<open>np.array([re.match(y, xx) for xx in x], dtype=bool)\<close>: one call of the regular
  expression engine per element, in order; the first call that raises ends the loop.
\<close>

fun match_each :: "('a \<Rightarrow> bool outcome) \<Rightarrow> 'a list \<Rightarrow> bool list outcome" where
  "match_each f [] = Returns []"
| "match_each f (x # xs) =
     and_then (f x) (\<lambda>b. and_then (match_each f xs) (\<lambda>bs. Returns (b # bs)))"

fun re_match_array :: "'f externals \<Rightarrow> 'f data \<Rightarrow> 'f data \<Rightarrow> 'f data outcome" where
  "re_match_array ext (S (StrV y)) (A (StrArr xs)) =
     and_then (match_each (re_match ext y) xs) (\<lambda>bs. Returns (A (BoolArr bs)))"
| "re_match_array ext y x = Unmodelled"

text \<open>
  The loop of the last branch of \<^verbatim>\<open>fn\<close>: for every element of \<open>x\<close> and every member
  of \<open>y\<close>, one entry is appended to the result, so the array built has
  \<open>length x * length y\<close> entries.
\<close>

fun fn_pair :: "'f externals \<Rightarrow> string \<Rightarrow> 'f scalar \<Rightarrow> bool outcome" where
  "fn_pair ext xx (StrV yy) =
     (if contains ''.*'' yy then re_match ext yy xx else Returns (xx = yy))"
| "fn_pair ext xx yy = Unmodelled"

fun fn_loop :: "'f externals \<Rightarrow> 'f data \<Rightarrow> 'f data \<Rightarrow> 'f data outcome" where
  "fn_loop ext (A (StrArr xs)) (L ys) =
     and_then (match_each (\<lambda>(xx, yy). fn_pair ext xx yy)
                 (concat (map (\<lambda>xx. map (Pair xx) ys) xs)))
       (\<lambda>bs. Returns (A (BoolArr bs)))"
| "fn_loop ext x y = Unmodelled"

text \<open>
  The local function \<^verbatim>\<open>fn(x, y)\<close> of the property-equals branch.  Both tests
  \<^verbatim>\<open>not isinstance(y, str) or ...\<close> are kept as the source writes them.
\<close>

definition fn :: "'f externals \<Rightarrow> 'f data \<Rightarrow> 'f data \<Rightarrow> 'f data outcome" where
  "fn ext x y =
     (if \<not> isinstance_list y then
        (if \<not> isinstance_str y \<or> \<not> has_wildcard y then np_equal ext x y
         else re_match_array ext y x)
      else
        (if \<not> isinstance_str y \<or> (case y of L ys \<Rightarrow> list_all (\<lambda>yy. \<not> has_wildcard (S yy)) ys | _ \<Rightarrow> True)
         then np_isin ext x y
         else fn_loop ext x y))"

subsection \<open>The store, the molecule and the analysis\<close>

text \<open>
  The coordinates are one tensor of shape \<open>(natoms, 3, nframes)\<close>.  The store maps
  addresses to one-dimensional arrays and to tensors; addresses below \<open>next_addr\<close> are
  in use.  \<open>wd_calls\<close> counts the invocations of the distance primitive.
\<close>

record 'f tensor =
  natoms :: nat
  nframes :: nat
  coord :: "nat \<Rightarrow> nat \<Rightarrow> nat \<Rightarrow> 'f"

record 'f state =
  cells :: "addr \<Rightarrow> 'f ndarray"
  tensors :: "addr \<Rightarrow> 'f tensor"
  next_addr :: addr
  wd_calls :: nat

text \<open>
  The molecule holds its per-atom arrays by reference under their attribute names
  (\<^verbatim>\<open>getattr(mol, name)\<close>), its coordinate tensor, the active frame and the atom count.
  The analysis is a dictionary from group names to arrays.
\<close>

record molecule =
  attrs :: "string \<rightharpoonup> addr"
  coords :: addr
  frame :: nat
  numAtoms :: nat

type_synonym analysis = "string \<rightharpoonup> addr"

definition molpropmap :: "string \<rightharpoonup> string" where
  "molpropmap = map_of
     [(''serial'', ''serial''), (''name'', ''name''), (''element'', ''element''),
      (''resname'', ''resname''), (''resid'', ''resid''), (''insertion'', ''insertion''),
      (''chain'', ''chain''), (''segid'', ''segid''), (''segname'', ''segid''),
      (''altloc'', ''altloc''), (''mass'', ''masses''), (''occupancy'', ''beta''),
      (''beta'', ''beta''), (''charge'', ''charge'')]"

definition getattr :: "molecule \<Rightarrow> string \<Rightarrow> addr outcome" where
  "getattr mol a = (case attrs mol a of Some r \<Rightarrow> Returns r | None \<Rightarrow> Raises (AttributeError a))"

definition lookup :: "analysis \<Rightarrow> string \<Rightarrow> addr outcome" where
  "lookup an k = (case an k of Some r \<Rightarrow> Returns r | None \<Rightarrow> Raises (KeyError k))"

definition alloc :: "'f ndarray \<Rightarrow> 'f state \<Rightarrow> addr \<times> 'f state" where
  "alloc x s =
     (next_addr s, s\<lparr>cells := (cells s)(next_addr s := x), next_addr := Suc (next_addr s)\<rparr>)"

fun read :: "'f state \<Rightarrow> 'f pyval \<Rightarrow> 'f data" where
  "read s (Arr a) = A (cells s a)"
| "read s (AxisView a k f) =
     A (FloatArr (map (\<lambda>i. coord (tensors s a) i k f) [0..<natoms (tensors s a)]))"
| "read s (Sc v) = S v"
| "read s (Ls vs) = L vs"

text \<open>
  What a branch of the evaluator hands back: a value it already held (\<open>Same\<close>: no copy
  is made, the caller gets the very array) or a newly computed content (\<open>New\<close>), for
  which numpy allocates a new array.
\<close>

datatype 'f answer = Same "'f pyval" | New "'f data"

definition new :: "'f data outcome \<Rightarrow> 'f answer outcome" where
  "new r = and_then r (\<lambda>d. Returns (New d))"

fun finish :: "'f answer outcome \<Rightarrow> 'f state \<Rightarrow> 'f pyval outcome \<times> 'f state" where
  "finish (Returns (Same v)) s = (Returns v, s)"
| "finish (Returns (New (A x))) s = (Returns (Arr (fst (alloc x s))), snd (alloc x s))"
| "finish (Returns (New (S v))) s = (Returns (Sc v), s)"
| "finish (Returns (New (L vs))) s = (Returns (Ls vs), s)"
| "finish (Raises e) s = (Raises e, s)"
| "finish Unmodelled s = (Unmodelled, s)"

text \<open>\<^verbatim>\<open>node[i]\<close> for \<open>i \<ge> 1\<close>, where \<open>args\<close> are the evaluated children.\<close>

definition item :: "'f pyval list \<Rightarrow> nat \<Rightarrow> 'f pyval outcome" where
  "item args i = (if 1 \<le> i \<and> i \<le> length args then Returns (args ! (i - 1)) else Raises IndexError)"

subsection \<open>The branches of \<^verbatim>\<open>traverse_ast\<close>\<close>

definition eval_molecule ::
  "'f externals \<Rightarrow> molecule \<Rightarrow> analysis \<Rightarrow> 'f state \<Rightarrow> 'f pyval list \<Rightarrow> 'f answer outcome" where
  "eval_molecule ext mol an s args =
     and_then (item args 1) (\<lambda>molec.
       case molec of
         Sc (StrV m) \<Rightarrow>
           if m = ''lipid'' \<or> m = ''lipids'' then
             and_then (lookup an ''lipids'') (\<lambda>a. Returns (Same (Arr a)))
           else if m = ''ion'' \<or> m = ''ions'' then
             and_then (lookup an ''ions'') (\<lambda>a. Returns (Same (Arr a)))
           else if m = ''water'' \<or> m = ''waters'' then
             and_then (lookup an ''waters'') (\<lambda>a. Returns (Same (Arr a)))
           else if m = ''hydrogen'' then
             and_then (getattr mol ''element'') (\<lambda>a.
               new (np_equal ext (A (cells s a)) (S (StrV ''H''))))
           else if m = ''noh'' then
             and_then (getattr mol ''element'') (\<lambda>a.
               new (np_not_equal ext (A (cells s a)) (S (StrV ''H''))))
           else if m = ''backbone'' then
             and_then (lookup an ''protein_bb'') (\<lambda>a.
             and_then (lookup an ''nucleic_bb'') (\<lambda>b.
               new (np_or ext (A (cells s a)) (A (cells s b)))))
           else if m = ''sidechain'' then
             and_then (lookup an ''sidechain'') (\<lambda>a. Returns (Same (Arr a)))
           else if m = ''protein'' then
             and_then (lookup an ''protein'') (\<lambda>a. Returns (Same (Arr a)))
           else if m = ''nucleic'' then
             and_then (lookup an ''nucleic'') (\<lambda>a. Returns (Same (Arr a)))
           else Raises (RuntimeError (''Invalid molecule selection '' @ m))
       | _ \<Rightarrow> Unmodelled)"

definition eval_molprop_eq ::
  "'f externals \<Rightarrow> molecule \<Rightarrow> analysis \<Rightarrow> 'f state \<Rightarrow> 'f pyval list \<Rightarrow> 'f answer outcome" where
  "eval_molprop_eq ext mol an s args =
     and_then (item args 1) (\<lambda>molprop.
     and_then (item args 2) (\<lambda>value.
       case molprop of
         Sc (StrV p) \<Rightarrow>
           (case molpropmap p of
              Some attr \<Rightarrow>
                and_then (getattr mol attr) (\<lambda>a. new (fn ext (A (cells s a)) (read s value)))
            | None \<Rightarrow>
                if p = ''index'' then
                  new (fn ext (A (IntArr (map int [0..<numAtoms mol]))) (read s value))
                else if p = ''residue'' then
                  and_then (lookup an ''residues'') (\<lambda>a.
                    new (fn ext (A (cells s a)) (read s value)))
                else Raises (RuntimeError (''Invalid molprop '' @ p)))
       | _ \<Rightarrow> Unmodelled))"

definition eval_molprop_int_modulo ::
  "'f externals \<Rightarrow> molecule \<Rightarrow> 'f state \<Rightarrow> 'f pyval list \<Rightarrow> 'f answer outcome" where
  "eval_molprop_int_modulo ext mol s args =
     and_then (item args 1) (\<lambda>molprop.
     and_then (item args 2) (\<lambda>val1.
     and_then (item args 3) (\<lambda>val2.
       case molprop of
         Sc (StrV p) \<Rightarrow>
           (case molpropmap p of
              None \<Rightarrow> Raises (KeyError p)
            | Some attr \<Rightarrow>
                and_then (getattr mol attr) (\<lambda>a.
                and_then (numpy ext Remainder [A (cells s a), read s val1]) (\<lambda>r.
                  new (np_equal ext r (read s val2)))))
       | _ \<Rightarrow> Unmodelled)))"

definition eval_logop :: "'f externals \<Rightarrow> 'f state \<Rightarrow> 'f pyval list \<Rightarrow> 'f answer outcome" where
  "eval_logop ext s args =
     and_then (item args 1) (\<lambda>op.
       case op of
         Sc (StrV opr) \<Rightarrow>
           if opr = ''and'' then
             and_then (item args 2) (\<lambda>a. and_then (item args 3) (\<lambda>b.
               new (np_and ext (read s a) (read s b))))
           else if opr = ''or'' then
             and_then (item args 2) (\<lambda>a. and_then (item args 3) (\<lambda>b.
               new (np_or ext (read s a) (read s b))))
           else if opr = ''not'' then
             and_then (item args 2) (\<lambda>a. new (np_invert ext (read s a)))
           else Raises (RuntimeError (''Invalid logop '' @ opr))
       | _ \<Rightarrow> Unmodelled)"

definition eval_uminus :: "'f externals \<Rightarrow> 'f state \<Rightarrow> 'f pyval list \<Rightarrow> 'f answer outcome" where
  "eval_uminus ext s args =
     and_then (item args 1) (\<lambda>x. new (numpy ext Negative [read s x]))"

definition eval_grouped :: "'f pyval list \<Rightarrow> 'f answer outcome" where
  "eval_grouped args = and_then (item args 1) (\<lambda>x. Returns (Same x))"

text \<open>\<^verbatim>\<open>mol.coords[:, k, mol.frame]\<close>: a view of the tensor, no copy.\<close>

definition axis_view :: "molecule \<Rightarrow> 'f state \<Rightarrow> nat \<Rightarrow> 'f answer outcome" where
  "axis_view mol s k =
     (if frame mol < nframes (tensors s (coords mol))
      then Returns (Same (AxisView (coords mol) k (frame mol)))
      else Raises IndexError)"

definition eval_numprop :: "molecule \<Rightarrow> 'f state \<Rightarrow> 'f pyval list \<Rightarrow> 'f answer outcome" where
  "eval_numprop mol s args =
     and_then (item args 1) (\<lambda>val1.
       case val1 of
         Sc (StrV p) \<Rightarrow>
           if p = ''x'' then axis_view mol s 0
           else if p = ''y'' then axis_view mol s 1
           else if p = ''z'' then axis_view mol s 2
           else (case molpropmap p of
                   None \<Rightarrow> Raises (KeyError p)
                 | Some attr \<Rightarrow> and_then (getattr mol attr) (\<lambda>a. Returns (Same (Arr a))))
       | _ \<Rightarrow> Unmodelled)"

definition eval_comp :: "'f externals \<Rightarrow> 'f state \<Rightarrow> 'f pyval list \<Rightarrow> 'f answer outcome" where
  "eval_comp ext s args =
     and_then (item args 1) (\<lambda>op.
     and_then (item args 2) (\<lambda>val1.
     and_then (item args 3) (\<lambda>val2.
       case op of
         Sc (StrV opr) \<Rightarrow>
           if opr = ''='' then new (np_equal ext (read s val1) (read s val2))
           else if opr = ''<'' then new (numpy ext Less [read s val1, read s val2])
           else if opr = ''>'' then new (numpy ext Greater [read s val1, read s val2])
           else if opr = ''<='' then new (numpy ext LessEqual [read s val1, read s val2])
           else if opr = ''>='' then new (numpy ext GreaterEqual [read s val1, read s val2])
           else Raises (RuntimeError (''Invalid comparison op '' @ opr))
       | _ \<Rightarrow> Unmodelled)))"

text \<open>\<^verbatim>\<open>np.any(x < 0)\<close> for an array or a scalar of numbers.\<close>

fun any_negative :: "'f externals \<Rightarrow> 'f data \<Rightarrow> bool outcome" where
  "any_negative ext (A (IntArr xs)) = Returns (list_ex (\<lambda>x. x < 0) xs)"
| "any_negative ext (A (FloatArr xs)) = Returns (list_ex (float_lt0 ext) xs)"
| "any_negative ext (A (BoolArr xs)) = Returns False"
| "any_negative ext (S (IntV n)) = Returns (n < 0)"
| "any_negative ext (S (FloatV x)) = Returns (float_lt0 ext x)"
| "any_negative ext x = Unmodelled"

definition eval_func :: "'f externals \<Rightarrow> 'f state \<Rightarrow> 'f pyval list \<Rightarrow> 'f answer outcome" where
  "eval_func ext s args =
     and_then (item args 1) (\<lambda>f.
       case f of
         Sc (StrV name) \<Rightarrow>
           if name = ''abs'' then
             and_then (item args 2) (\<lambda>x. new (numpy ext Absolute [read s x]))
           else if name = ''sqr'' then
             and_then (item args 2) (\<lambda>x. new (numpy ext Multiply [read s x, read s x]))
           else if name = ''sqrt'' then
             and_then (item args 2) (\<lambda>x.
             and_then (any_negative ext (read s x)) (\<lambda>neg.
               if neg then Raises (RuntimeError ''Negative values in sqrt() call'')
               else new (numpy ext Sqrt [read s x])))
           else Raises (RuntimeError (''Invalid function '' @ name))
       | _ \<Rightarrow> Unmodelled)"

text \<open>
  In the arithmetic branch the local \<^verbatim>\<open>fn\<close> is bound only when the operator is one
  of the four known ones; calling it otherwise is Python's \<^verbatim>\<open>UnboundLocalError\<close>.
\<close>

definition eval_mathop :: "'f externals \<Rightarrow> 'f state \<Rightarrow> 'f pyval list \<Rightarrow> 'f answer outcome" where
  "eval_mathop ext s args =
     and_then (item args 1) (\<lambda>op.
     and_then (item args 2) (\<lambda>val1.
     and_then (item args 3) (\<lambda>val2.
       case op of
         Sc (StrV opr) \<Rightarrow>
           if opr = ''+'' then new (numpy ext Add [read s val1, read s val2])
           else if opr = ''-'' then new (numpy ext Subtract [read s val1, read s val2])
           else if opr = ''*'' then new (numpy ext Multiply [read s val1, read s val2])
           else if opr = ''/'' then new (numpy ext Divide [read s val1, read s val2])
           else Raises UnboundLocalError
       | _ \<Rightarrow> Unmodelled)))"

text \<open>
  \<^verbatim>\<open>np.isin(values, np.unique(values[sel]))\<close>: the atoms whose group value occurs
  among the selected atoms.
\<close>

definition same_group :: "'f externals \<Rightarrow> 'f data \<Rightarrow> 'f data \<Rightarrow> 'f data outcome" where
  "same_group ext values sel =
     and_then (np_getitem ext values sel) (\<lambda>picked.
     and_then (np_unique ext picked) (\<lambda>selvals.
       np_isin ext values selvals))"

definition eval_sameas ::
  "'f externals \<Rightarrow> molecule \<Rightarrow> analysis \<Rightarrow> 'f state \<Rightarrow> 'f pyval list \<Rightarrow> 'f answer outcome" where
  "eval_sameas ext mol an s args =
     and_then (item args 1) (\<lambda>prop.
     and_then (item args 2) (\<lambda>sel.
       case prop of
         Sc (StrV p) \<Rightarrow>
           if p = ''fragment'' then
             and_then (lookup an ''fragments'') (\<lambda>a.
               new (same_group ext (A (cells s a)) (read s sel)))
           else (case molpropmap p of
                   Some attr \<Rightarrow>
                     and_then (getattr mol attr) (\<lambda>a.
                       new (same_group ext (A (cells s a)) (read s sel)))
                 | None \<Rightarrow>
                     if p = ''residue'' then
                       and_then (lookup an ''residues'') (\<lambda>a.
                         new (same_group ext (A (cells s a)) (read s sel)))
                     else Raises (RuntimeError
                            (''Invalid property '' @ p @ '' in 'same '' @ p @ '' as'' @ [CHR 0x27])))
       | _ \<Rightarrow> Unmodelled))"

text \<open>
  The spatial branch.  \<^verbatim>\<open>np.where(source)[0]\<close> lists the positions of the true
  entries; \<^verbatim>\<open>mol.coords[:, :, mol.frame]\<close> is the list of the atoms' positions in the
  active frame.
\<close>

definition where_true :: "bool list \<Rightarrow> nat list" where
  "where_true m = filter (\<lambda>i. m ! i) [0..<length m]"

definition frame_coords :: "'f tensor \<Rightarrow> nat \<Rightarrow> 'f list list" where
  "frame_coords t f = map (\<lambda>i. map (\<lambda>k. coord t i k f) [0, 1, 2]) [0..<natoms t]"

text \<open>
  The part of the branch after the early return: the bounding box of the source atoms,
  the call of the distance primitive on the mask at address \<open>out\<close>, and for
  \<^verbatim>\<open>exwithin\<close> the assignment \<^verbatim>\<open>mask[source] = False\<close>.  Indexing the tensor or the
  mask with a boolean array of another length is an \<^verbatim>\<open>IndexError\<close>.
\<close>

definition fill_mask ::
  "'f externals \<Rightarrow> molecule \<Rightarrow> bool \<Rightarrow> addr \<Rightarrow> 'f data \<Rightarrow> bool list \<Rightarrow> 'f state \<Rightarrow>
   'f pyval outcome \<times> 'f state" where
  "fill_mask ext mol exclusive out cutoff source s =
     (let t = tensors s (coords mol) in
      if length source \<noteq> natoms t \<or> \<not> frame mol < nframes t then (Raises IndexError, s)
      else
        let idx = where_true source;
            min_source = map (\<lambda>k. float_min ext (map (\<lambda>i. coord t i k (frame mol)) idx)) [0, 1, 2];
            max_source = map (\<lambda>k. float_max ext (map (\<lambda>i. coord t i k (frame mol)) idx)) [0, 1, 2];
            s2 = s\<lparr>wd_calls := Suc (wd_calls s)\<rparr>
        in case within_distance ext (frame_coords t (frame mol)) cutoff idx min_source max_source
                  (replicate (numAtoms mol) False) of
             Raises e \<Rightarrow> (Raises e, s2)
           | Unmodelled \<Rightarrow> (Unmodelled, s2)
           | Returns filled \<Rightarrow>
               let s3 = s2\<lparr>cells := (cells s2)(out := BoolArr filled)\<rparr> in
               if exclusive then
                 (if length source = length filled
                  then (Returns (Arr out),
                        s3\<lparr>cells := (cells s3)(out := BoolArr (map2 (\<lambda>b c. c \<and> \<not> b) source filled))\<rparr>)
                  else (Raises IndexError, s3))
               else (Returns (Arr out), s3))"

definition within_body ::
  "'f externals \<Rightarrow> molecule \<Rightarrow> bool \<Rightarrow> 'f pyval list \<Rightarrow> addr \<Rightarrow> 'f state \<Rightarrow>
   'f pyval outcome \<times> 'f state" where
  "within_body ext mol exclusive args out s =
     (case item args 1 of
        Raises e \<Rightarrow> (Raises e, s)
      | Unmodelled \<Rightarrow> (Unmodelled, s)
      | Returns cutoff \<Rightarrow>
    (case item args 2 of
        Raises e \<Rightarrow> (Raises e, s)
      | Unmodelled \<Rightarrow> (Unmodelled, s)
      | Returns source \<Rightarrow>
    (case read s source of
        A (BoolArr src) \<Rightarrow>
          if \<not> list_ex (\<lambda>b. b) src then (Returns (Arr out), s)
          else fill_mask ext mol exclusive out (read s cutoff) src s
      | _ \<Rightarrow> (Unmodelled, s))))"

text \<open>
  The branch starts with \<^verbatim>\<open>mask = np.zeros(mol.numAtoms, dtype=bool)\<close>; the rest
  works on that new array.
\<close>

definition eval_within ::
  "'f externals \<Rightarrow> molecule \<Rightarrow> bool \<Rightarrow> 'f pyval list \<Rightarrow> 'f state \<Rightarrow> 'f pyval outcome \<times> 'f state" where
  "eval_within ext mol exclusive args s =
     within_body ext mol exclusive args
       (fst (alloc (BoolArr (replicate (numAtoms mol) False)) s))
       (snd (alloc (BoolArr (replicate (numAtoms mol) False)) s))"

subsection \<open>The evaluator\<close>

text \<open>The chain of tests on \<^verbatim>\<open>operation\<close>, in the order of the source.\<close>

definition dispatch ::
  "'f externals \<Rightarrow> molecule \<Rightarrow> analysis \<Rightarrow> string \<Rightarrow> 'f pyval list \<Rightarrow> 'f state \<Rightarrow>
   'f pyval outcome \<times> 'f state" where
  "dispatch ext mol an operation args s =
     (if operation = ''molecule'' then finish (eval_molecule ext mol an s args) s
      else if operation = ''molprop_int_eq'' \<or> operation = ''molprop_str_eq'' then
        finish (eval_molprop_eq ext mol an s args) s
      else if operation = ''molprop_int_modulo'' then
        finish (eval_molprop_int_modulo ext mol s args) s
      else if operation = ''logop'' then finish (eval_logop ext s args) s
      else if operation = ''uminus'' then finish (eval_uminus ext s args) s
      else if operation = ''grouped'' then finish (eval_grouped args) s
      else if operation = ''numprop'' then finish (eval_numprop mol s args) s
      else if operation = ''comp'' then finish (eval_comp ext s args) s
      else if operation = ''func'' then finish (eval_func ext s args) s
      else if operation = ''mathop'' then finish (eval_mathop ext s args) s
      else if operation = ''sameas'' then finish (eval_sameas ext mol an s args) s
      else if operation = ''within'' \<or> operation = ''exwithin'' then
        eval_within ext mol (operation = ''exwithin'') args s
      else (Raises (RuntimeError (''Invalid operation '' @ operation)), s))"

text \<open>
  \<^verbatim>\<open>traverse_ast\<close>: the children that are tuples are evaluated first, from left to
  right, literals are kept, and then the operation is applied.  An exception in a
  child ends the evaluation.
\<close>

fun traverse_ast ::
    "'f externals \<Rightarrow> molecule \<Rightarrow> analysis \<Rightarrow> 'f node \<Rightarrow> 'f state \<Rightarrow> 'f pyval outcome \<times> 'f state"
  and traverse_child ::
    "'f externals \<Rightarrow> molecule \<Rightarrow> analysis \<Rightarrow> 'f child \<Rightarrow> 'f state \<Rightarrow> 'f pyval outcome \<times> 'f state"
  and traverse_children ::
    "'f externals \<Rightarrow> molecule \<Rightarrow> analysis \<Rightarrow> 'f child list \<Rightarrow> 'f state \<Rightarrow>
     'f pyval list outcome \<times> 'f state"
where
  "traverse_ast ext mol an (Node operation children) s =
     (case traverse_children ext mol an children s of
        (Returns args, s') \<Rightarrow> dispatch ext mol an operation args s'
      | (Raises e, s') \<Rightarrow> (Raises e, s')
      | (Unmodelled, s') \<Rightarrow> (Unmodelled, s'))"
| "traverse_child ext mol an (Sub n) s = traverse_ast ext mol an n s"
| "traverse_child ext mol an (Lit v) s = (Returns (Sc v), s)"
| "traverse_child ext mol an (LitList vs) s = (Returns (Ls vs), s)"
| "traverse_children ext mol an [] s = (Returns [], s)"
| "traverse_children ext mol an (c # cs) s =
     (case traverse_child ext mol an c s of
        (Returns v, s') \<Rightarrow>
          (case traverse_children ext mol an cs s' of
             (Returns vs, s'') \<Rightarrow> (Returns (v # vs), s'')
           | (Raises e, s'') \<Rightarrow> (Raises e, s'')
           | (Unmodelled, s'') \<Rightarrow> (Unmodelled, s''))
      | (Raises e, s') \<Rightarrow> (Raises e, s')
      | (Unmodelled, s') \<Rightarrow> (Unmodelled, s'))"

subsection \<open>A small molecule to run the evaluator on\<close>

text \<open>
  Four atoms in two residues, with whole numbers standing for the floats.  The regular
  expression engine of this example answers for the patterns of the shape
  \<open>literal.*\<close> (as \<^verbatim>\<open>"C.*"\<close>): \<^verbatim>\<open>re.match\<close> succeeds on them exactly when the
  string starts with the literal text.  The distance primitive is the pairwise one.
\<close>

definition re_match_prefix :: "string \<Rightarrow> string \<Rightarrow> bool outcome" where
  "re_match_prefix p s =
     (let q = take (length p - 2) p in
      if 2 \<le> length p \<and> drop (length p - 2) p = ''.*''
         \<and> list_all (\<lambda>c. c \<notin> set (''.^$*+?{}[]|()'' @ [CHR 0x5C])) q
      then Returns (take (length q) s = q)
      else Unmodelled)"

definition sqdist :: "int list \<Rightarrow> int list \<Rightarrow> int" where
  "sqdist p q = sum_list (map2 (\<lambda>a b. (a - b) * (a - b)) p q)"

definition within_distance_pairwise ::
  "int list list \<Rightarrow> int data \<Rightarrow> nat list \<Rightarrow> int list \<Rightarrow> int list \<Rightarrow> bool list \<Rightarrow> bool list outcome" where
  "within_distance_pairwise xyz cutoff idx lo hi m =
     (case cutoff of
        S (IntV c) \<Rightarrow>
          Returns (map (\<lambda>i. m ! i \<or> list_ex (\<lambda>j. 0 \<le> c \<and> sqdist (xyz ! i) (xyz ! j) \<le> c * c) idx)
                     [0..<length m])
      | S (FloatV c) \<Rightarrow>
          Returns (map (\<lambda>i. m ! i \<or> list_ex (\<lambda>j. 0 \<le> c \<and> sqdist (xyz ! i) (xyz ! j) \<le> c * c) idx)
                     [0..<length m])
      | _ \<Rightarrow> Raises TypeError)"

definition ext0 :: "int externals" where
  "ext0 = \<lparr> re_match = re_match_prefix,
            within_distance = within_distance_pairwise,
            numpy = (\<lambda>u args. Unmodelled),
            float_lt0 = (\<lambda>x. x < 0),
            float_ge0 = (\<lambda>x. 0 \<le> x),
            float_min = (\<lambda>xs. fold min xs (hd xs)),
            float_max = (\<lambda>xs. fold max xs (hd xs)) \<rparr>"

definition arrays0 :: "int ndarray list" where
  "arrays0 =
     [IntArr [1, 2, 3, 4],
      StrArr [''N'', ''CA'', ''C+'', ''CB''],
      StrArr [''N'', ''C'', ''H'', ''C''],
      StrArr [''ALA'', ''ALA'', ''GLY'', ''GLY''],
      IntArr [5, 5, 6, 6],
      StrArr [[], [], [], []],
      StrArr [''A'', ''A'', ''A'', ''A''],
      StrArr [''P'', ''P'', ''P'', ''P''],
      StrArr [[], [], [], []],
      FloatArr [14, 12, 1, 12],
      FloatArr [0, - 1, 2, 2],
      FloatArr [0, 0, 0, 0],
      BoolArr [False, False, False, False],
      BoolArr [False, False, False, False],
      BoolArr [False, False, False, False],
      BoolArr [True, True, False, False],
      BoolArr [False, False, False, False],
      BoolArr [False, False, True, True],
      BoolArr [True, True, True, True],
      BoolArr [False, False, False, False],
      IntArr [0, 0, 0, 0],
      IntArr [0, 0, 1, 1]]"

definition tensor0 :: "int tensor" where
  "tensor0 = \<lparr> natoms = 4, nframes = 1,
               coord = (\<lambda>i k f. if k = 0 then [0, 1, 5, 9] ! i else 0) \<rparr>"

definition state0 :: "int state" where
  "state0 = \<lparr> cells = (\<lambda>a. if a < 22 then arrays0 ! a else BoolArr []),
              tensors = (\<lambda>a. tensor0),
              next_addr = 22,
              wd_calls = 0 \<rparr>"

definition mol0 :: molecule where
  "mol0 = \<lparr> attrs = map_of
              [(''serial'', 0), (''name'', 1), (''element'', 2), (''resname'', 3),
               (''resid'', 4), (''insertion'', 5), (''chain'', 6), (''segid'', 7),
               (''altloc'', 8), (''masses'', 9), (''beta'', 10), (''charge'', 11)],
            coords = 0, frame = 0, numAtoms = 4 \<rparr>"

definition analysis0 :: analysis where
  "analysis0 = map_of
     [(''lipids'', 12), (''ions'', 13), (''waters'', 14), (''protein_bb'', 15),
      (''nucleic_bb'', 16), (''sidechain'', 17), (''protein'', 18), (''nucleic'', 19),
      (''fragments'', 20), (''residues'', 21)]"

subsection \<open>Notions used in the statements\<close>

text \<open>
  The mask an evaluation results in, when it returns a boolean array.
\<close>

definition result_mask :: "'f pyval outcome \<times> 'f state \<Rightarrow> bool list option" where
  "result_mask r =
     (case r of
        (Returns v, s) \<Rightarrow> (case read s v of A (BoolArr m) \<Rightarrow> Some m | _ \<Rightarrow> None)
      | _ \<Rightarrow> None)"


text \<open>
  \<open>preserved s s'\<close>: every array and tensor that exists in \<open>s\<close> is the same in \<open>s'\<close>.
  \<open>stored mol an s\<close>: the arrays of the molecule and of the analysis exist in \<open>s\<close>.
  \<open>in_store s v\<close>: a value that refers to an array refers to one that exists in \<open>s\<close>.
\<close>

definition preserved :: "'f state \<Rightarrow> 'f state \<Rightarrow> bool" where
  "preserved s s' \<longleftrightarrow>
     (\<forall>a<next_addr s. cells s' a = cells s a) \<and> tensors s' = tensors s
     \<and> next_addr s \<le> next_addr s'"

definition stored :: "molecule \<Rightarrow> analysis \<Rightarrow> 'f state \<Rightarrow> bool" where
  "stored mol an s \<longleftrightarrow>
     (\<forall>a\<in>ran (attrs mol). a < next_addr s) \<and> (\<forall>a\<in>ran an. a < next_addr s)"

fun in_store :: "'f state \<Rightarrow> 'f pyval \<Rightarrow> bool" where
  "in_store s (Arr a) = (a < next_addr s)"
| "in_store s v = True"



text \<open>
  The mask that the specification describes for a list of query strings of which some
  contain the wildcard marker: an atom is selected when its value equals a member
  without the marker or is matched by a member with the marker.
\<close>

definition wildcard_list_spec :: "'f externals \<Rightarrow> string list \<Rightarrow> string list \<Rightarrow> bool list" where
  "wildcard_list_spec ext xs ys =
     map (\<lambda>x. list_ex (\<lambda>y. if contains ''.*'' y then re_match ext y x = Returns True else x = y) ys) xs"

text \<open>
  \<open>answer_ok s r\<close>: an answer that hands back a value the evaluator held hands back one
  that exists in \<open>s\<close>.
\<close>

fun answer_ok :: "'f state \<Rightarrow> 'f answer outcome \<Rightarrow> bool" where
  "answer_ok s (Returns (Same u)) = in_store s u"
| "answer_ok s r = True"



section \<open>Properties of the evaluator\<close>

subsection \<open>Auxiliary facts\<close>

lemma preserved_refl: "preserved s s"
  by (simp add: preserved_def)

lemma preserved_trans: "preserved s s' \<Longrightarrow> preserved s' s'' \<Longrightarrow> preserved s s''"
  by (auto simp add: preserved_def)

lemma preserved_alloc: "preserved s (snd (alloc x s))"
  by (simp add: preserved_def alloc_def)

lemma finish_preserved: "finish r s = (x, s') \<Longrightarrow> preserved s s'"
  by (induction r s rule: finish.induct) (auto simp add: preserved_refl preserved_alloc)

lemma fill_mask_preserved:
  "next_addr s0 \<le> out \<Longrightarrow> out < next_addr s \<Longrightarrow> preserved s0 s \<Longrightarrow>
   fill_mask ext mol excl out c src s = (x, s') \<Longrightarrow> preserved s0 s'"
  by (auto simp add: fill_mask_def Let_def preserved_def split: if_splits outcome.splits)

lemma within_body_preserved:
  assumes "next_addr s0 \<le> out" "out < next_addr s" "preserved s0 s"
    and "within_body ext mol excl args out s = (x, s')"
  shows "preserved s0 s'"
proof (cases "item args 1")
  case (Returns cutoff)
  note c = this
  show ?thesis
  proof (cases "item args 2")
    case (Returns source)
    with assms c show ?thesis
      by (auto simp add: within_body_def split: data.splits ndarray.splits if_splits
          dest: fill_mask_preserved)
  qed (use assms c in \<open>auto simp add: within_body_def\<close>)
qed (use assms in \<open>auto simp add: within_body_def\<close>)

lemma eval_within_preserved: "eval_within ext mol excl args s = (x, s') \<Longrightarrow> preserved s s'"
  unfolding eval_within_def
  by (erule within_body_preserved [rotated 3]) (simp_all add: alloc_def preserved_def)

lemma dispatch_preserved: "dispatch ext mol an opn args s = (x, s') \<Longrightarrow> preserved s s'"
  unfolding dispatch_def
  by (simp split: if_splits add: preserved_refl finish_preserved eval_within_preserved)

lemma traverse_preserved:
  "traverse_ast ext mol an n s = (r, s') \<Longrightarrow> preserved s s'"
  "traverse_child ext mol an c s = (r, s') \<Longrightarrow> preserved s s'"
  "traverse_children ext mol an cs s = (rs, s') \<Longrightarrow> preserved s s'"
proof (induction ext mol an n s and ext mol an c s and ext mol an cs s
    arbitrary: r s' and r s' and rs s'
    rule: traverse_ast_traverse_child_traverse_children.induct)
  case (1 ext mol an operation children s)
  obtain x s1 where c: "traverse_children ext mol an children s = (x, s1)"
    by (cases "traverse_children ext mol an children s")
  have p: "preserved s s1" using "1.IH" c by blast
  show ?case
  proof (cases x)
    case (Returns args)
    with "1.prems" c have "dispatch ext mol an operation args s1 = (r, s')" by simp
    then show ?thesis using p dispatch_preserved preserved_trans by blast
  qed (use "1.prems" c p in auto)
next
  case (6 ext mol an c cs s)
  obtain x s1 where c: "traverse_child ext mol an c s = (x, s1)"
    by (cases "traverse_child ext mol an c s")
  have p: "preserved s s1" using "6.IH"(1) c by blast
  show ?case
  proof (cases x)
    case (Returns v)
    obtain y s2 where d: "traverse_children ext mol an cs s1 = (y, s2)"
      by (cases "traverse_children ext mol an cs s1")
    have q: "preserved s1 s2" using "6.IH"(2) [OF c [symmetric] Returns d] .
    have "s' = s2" using "6.prems" c Returns d by (cases y) auto
    then show ?thesis using p q preserved_trans by blast
  qed (use "6.prems" c p in auto)
qed (auto simp add: preserved_refl)

lemma stored_mono: "stored mol an s \<Longrightarrow> preserved s s' \<Longrightarrow> stored mol an s'"
  by (fastforce simp add: stored_def preserved_def)

lemma in_store_mono: "in_store s v \<Longrightarrow> preserved s s' \<Longrightarrow> in_store s' v"
  by (cases v) (auto simp add: preserved_def)

lemma answer_ok_and_then:
  "(\<And>x. r = Returns x \<Longrightarrow> answer_ok s (f x)) \<Longrightarrow> answer_ok s (and_then r f)"
  by (cases r) auto

lemma answer_ok_new: "answer_ok s (new r)"
  by (cases r) (auto simp add: new_def)

lemma item_in_set: "item args i = Returns x \<Longrightarrow> x \<in> set args"
  by (auto simp add: item_def split: if_splits)

lemma answer_ok_lookup:
  "stored mol an s \<Longrightarrow> answer_ok s (and_then (lookup an k) (\<lambda>a. Returns (Same (Arr a))))"
  by (auto simp add: lookup_def stored_def ran_def split: option.splits)

lemma answer_ok_getattr:
  "stored mol an s \<Longrightarrow> answer_ok s (and_then (getattr mol k) (\<lambda>a. Returns (Same (Arr a))))"
  by (auto simp add: getattr_def stored_def ran_def split: option.splits)

lemma eval_molecule_ok: "stored mol an s \<Longrightarrow> answer_ok s (eval_molecule ext mol an s args)"
  unfolding eval_molecule_def
  apply (rule answer_ok_and_then)
  apply (simp split: pyval.split scalar.split
      add: answer_ok_lookup answer_ok_new answer_ok_and_then)
  done

lemma axis_view_ok: "answer_ok s (axis_view mol s k)"
  by (simp add: axis_view_def)

lemma eval_numprop_ok: "stored mol an s \<Longrightarrow> answer_ok s (eval_numprop mol s args)"
  unfolding eval_numprop_def
  apply (rule answer_ok_and_then)
  apply (simp split: pyval.split scalar.split option.split
      add: answer_ok_getattr axis_view_ok)
  done

lemma eval_grouped_ok: "list_all (in_store s) args \<Longrightarrow> answer_ok s (eval_grouped args)"
  unfolding eval_grouped_def
  by (rule answer_ok_and_then) (auto simp add: list_all_iff dest: item_in_set)

lemma eval_molprop_eq_ok: "answer_ok s (eval_molprop_eq ext mol an s args)"
  unfolding eval_molprop_eq_def
  apply (rule answer_ok_and_then)
  apply (rule answer_ok_and_then)
  apply (simp split: pyval.split scalar.split option.split add: answer_ok_new answer_ok_and_then)
  done

lemma eval_molprop_int_modulo_ok: "answer_ok s (eval_molprop_int_modulo ext mol s args)"
  unfolding eval_molprop_int_modulo_def
  apply (rule answer_ok_and_then)
  apply (rule answer_ok_and_then)
  apply (rule answer_ok_and_then)
  apply (simp split: pyval.split scalar.split option.split add: answer_ok_new answer_ok_and_then)
  done

lemma eval_logop_ok: "answer_ok s (eval_logop ext s args)"
  unfolding eval_logop_def
  apply (rule answer_ok_and_then)
  apply (simp split: pyval.split scalar.split add: answer_ok_new answer_ok_and_then)
  done

lemma eval_uminus_ok: "answer_ok s (eval_uminus ext s args)"
  unfolding eval_uminus_def
  by (rule answer_ok_and_then) (simp add: answer_ok_new)

lemma eval_comp_ok: "answer_ok s (eval_comp ext s args)"
  unfolding eval_comp_def
  apply (rule answer_ok_and_then)
  apply (rule answer_ok_and_then)
  apply (rule answer_ok_and_then)
  apply (simp split: pyval.split scalar.split add: answer_ok_new)
  done

lemma eval_func_ok: "answer_ok s (eval_func ext s args)"
  unfolding eval_func_def
  apply (rule answer_ok_and_then)
  apply (simp split: pyval.split scalar.split add: answer_ok_new answer_ok_and_then)
  done

lemma eval_mathop_ok: "answer_ok s (eval_mathop ext s args)"
  unfolding eval_mathop_def
  apply (rule answer_ok_and_then)
  apply (rule answer_ok_and_then)
  apply (rule answer_ok_and_then)
  apply (simp split: pyval.split scalar.split add: answer_ok_new)
  done

lemma eval_sameas_ok: "answer_ok s (eval_sameas ext mol an s args)"
  unfolding eval_sameas_def
  apply (rule answer_ok_and_then)
  apply (rule answer_ok_and_then)
  apply (simp split: pyval.split scalar.split option.split add: answer_ok_new answer_ok_and_then)
  done

lemma finish_in_store:
  "answer_ok s r \<Longrightarrow> finish r s = (Returns v, s') \<Longrightarrow> in_store s' v"
  by (induction r s rule: finish.induct) (auto simp add: alloc_def)

lemma fill_mask_in_store:
  "out < next_addr s \<Longrightarrow> fill_mask ext mol excl out c src s = (Returns v, s') \<Longrightarrow> in_store s' v"
  by (auto simp add: fill_mask_def Let_def split: if_splits outcome.splits)

lemma within_body_in_store:
  assumes "out < next_addr s" and "within_body ext mol excl args out s = (Returns v, s')"
  shows "in_store s' v"
proof (cases "item args 1")
  case (Returns cutoff)
  note c = this
  show ?thesis
  proof (cases "item args 2")
    case (Returns source)
    with assms c show ?thesis
      by (auto simp add: within_body_def split: data.splits ndarray.splits if_splits
          dest: fill_mask_in_store)
  qed (use assms c in \<open>auto simp add: within_body_def\<close>)
qed (use assms in \<open>auto simp add: within_body_def\<close>)

lemma eval_within_in_store: "eval_within ext mol excl args s = (Returns v, s') \<Longrightarrow> in_store s' v"
  unfolding eval_within_def
  by (erule within_body_in_store [rotated]) (simp add: alloc_def)

lemma dispatch_in_store:
  "stored mol an s \<Longrightarrow> list_all (in_store s) args \<Longrightarrow>
   dispatch ext mol an opn args s = (Returns v, s') \<Longrightarrow> in_store s' v"
  unfolding dispatch_def
  by (simp split: if_splits add: eval_within_in_store
        finish_in_store [OF eval_molecule_ok] finish_in_store [OF eval_numprop_ok]
        finish_in_store [OF eval_grouped_ok] finish_in_store [OF eval_molprop_eq_ok]
        finish_in_store [OF eval_molprop_int_modulo_ok] finish_in_store [OF eval_logop_ok]
        finish_in_store [OF eval_uminus_ok] finish_in_store [OF eval_comp_ok]
        finish_in_store [OF eval_func_ok] finish_in_store [OF eval_mathop_ok]
        finish_in_store [OF eval_sameas_ok])

lemma traverse_in_store:
  "stored mol an s \<Longrightarrow> traverse_ast ext mol an n s = (Returns v, s') \<Longrightarrow> in_store s' v"
  "stored mol an s \<Longrightarrow> traverse_child ext mol an c s = (Returns v, s') \<Longrightarrow> in_store s' v"
  "stored mol an s \<Longrightarrow> traverse_children ext mol an cs s = (Returns vs, s') \<Longrightarrow>
     list_all (in_store s') vs"
proof (induction ext mol an n s and ext mol an c s and ext mol an cs s
    arbitrary: v s' and v s' and vs s'
    rule: traverse_ast_traverse_child_traverse_children.induct)
  case (1 ext mol an operation children s)
  obtain x s1 where c: "traverse_children ext mol an children s = (x, s1)"
    by (cases "traverse_children ext mol an children s")
  show ?case
  proof (cases x)
    case (Returns args)
    have a: "list_all (in_store s1) args" using "1.IH" "1.prems"(1) c Returns by blast
    have st: "stored mol an s1"
      using "1.prems"(1) c traverse_preserved(3) stored_mono by blast
    from "1.prems"(2) c Returns have "dispatch ext mol an operation args s1 = (Returns v, s')"
      by simp
    then show ?thesis using dispatch_in_store [OF st a] by blast
  qed (use "1.prems" c in auto)
next
  case (6 ext mol an c cs s)
  obtain x s1 where c: "traverse_child ext mol an c s = (x, s1)"
    by (cases "traverse_child ext mol an c s")
  show ?case
  proof (cases x)
    case (Returns u)
    obtain y s2 where d: "traverse_children ext mol an cs s1 = (y, s2)"
      by (cases "traverse_children ext mol an cs s1")
    have u: "in_store s1 u" using "6.IH"(1) "6.prems"(1) c Returns by blast
    have st: "stored mol an s1"
      using "6.prems"(1) c traverse_preserved(2) stored_mono by blast
    have p: "preserved s1 s2" using d traverse_preserved(3) by blast
    show ?thesis
    proof (cases y)
      case (Returns us)
      have "list_all (in_store s2) us"
        using "6.IH"(2) [OF c [symmetric] \<open>x = Returns u\<close> st] d Returns by blast
      moreover have "in_store s2 u" using u p in_store_mono by blast
      moreover have "vs = u # us" "s' = s2"
        using "6.prems"(2) c \<open>x = Returns u\<close> d Returns by auto
      ultimately show ?thesis by simp
    qed (use "6.prems" c \<open>x = Returns u\<close> d in auto)
  qed (use "6.prems" c in auto)
qed auto

lemma dispatch_logop: "dispatch ext mol an ''logop'' args s = finish (eval_logop ext s args) s"
  by (simp add: dispatch_def)

lemma dispatch_func: "dispatch ext mol an ''func'' args s = finish (eval_func ext s args) s"
  by (simp add: dispatch_def)

lemma dispatch_modulo:
  "dispatch ext mol an ''molprop_int_modulo'' args s = finish (eval_molprop_int_modulo ext mol s args) s"
  by (simp add: dispatch_def)

lemma dispatch_molprop_eq:
  "dispatch ext mol an ''molprop_int_eq'' args s = finish (eval_molprop_eq ext mol an s args) s"
  "dispatch ext mol an ''molprop_str_eq'' args s = finish (eval_molprop_eq ext mol an s args) s"
  by (simp_all add: dispatch_def)

lemma dispatch_molecule:
  "dispatch ext mol an ''molecule'' args s = finish (eval_molecule ext mol an s args) s"
  by (simp add: dispatch_def)

lemma dispatch_numprop:
  "dispatch ext mol an ''numprop'' args s = finish (eval_numprop mol s args) s"
  by (simp add: dispatch_def)

lemma traverse_leaf1:
  "traverse_ast ext mol an (Node opn [Lit t]) s = dispatch ext mol an opn [Sc t] s"
  by simp

lemma traverse_leaf2:
  "traverse_ast ext mol an (Node opn [Lit t, Lit u]) s = dispatch ext mol an opn [Sc t, Sc u] s"
  by simp

lemma traverse_leaf2l:
  "traverse_ast ext mol an (Node opn [Lit t, LitList us]) s = dispatch ext mol an opn [Sc t, Ls us] s"
  by simp

lemma traverse_leaf3:
  "traverse_ast ext mol an (Node opn [Lit t, Lit u, Lit w]) s =
     dispatch ext mol an opn [Sc t, Sc u, Sc w] s"
  by simp

lemma read_alloc: "in_store s v \<Longrightarrow> read (snd (alloc x s)) v = read s v"
  by (cases v) (auto simp add: alloc_def)

lemma dispatch_within:
  "dispatch ext mol an ''within'' args s = eval_within ext mol False args s"
  "dispatch ext mol an ''exwithin'' args s = eval_within ext mol True args s"
  by (simp_all add: dispatch_def)

lemma item_simps:
  "item (x # xs) 1 = Returns x"
  "item (x # xs) (Suc 0) = Returns x"
  "item (x # y # xs) 2 = Returns y"
  "item (x # y # z # xs) 3 = Returns z"
  "item [] i = Raises IndexError"
  "item [x] 2 = Raises IndexError"
  "item [x] 3 = Raises IndexError"
  "item [x, y] 3 = Raises IndexError"
  by (simp_all add: item_def)

lemma eval_within_empty:
  assumes "read (snd (alloc (BoolArr (replicate (numAtoms mol) False)) s)) v = A (BoolArr m)"
    and "\<not> list_ex (\<lambda>b. b) m"
  shows "eval_within ext mol excl [c, v] s =
           (Returns (Arr (next_addr s)), snd (alloc (BoolArr (replicate (numAtoms mol) False)) s))"
  unfolding eval_within_def within_body_def
  using assms by (simp add: item_simps) (simp add: alloc_def)

lemma stored0: "stored mol0 analysis0 state0"
proof -
  have "a < next_addr state0" if "attrs mol0 k = Some a" for k a
  proof -
    from that have "(k, a) \<in> set [(''serial'', 0), (''name'', 1), (''element'', 2), (''resname'', 3),
               (''resid'', 4), (''insertion'', 5), (''chain'', 6), (''segid'', 7),
               (''altloc'', 8), (''masses'', 9), (''beta'', 10), (''charge'', 11)]"
      unfolding mol0_def by (simp only: molecule.simps) (rule map_of_SomeD)
    then have "a \<le> 11" by (simp only: list.set insert_iff empty_iff prod.inject) (elim disjE conjE FalseE, simp_all)
    then show ?thesis by (simp add: state0_def)
  qed
  moreover have "a < next_addr state0" if "analysis0 k = Some a" for k a
  proof -
    from that have "(k, a) \<in> set [(''lipids'', 12), (''ions'', 13), (''waters'', 14), (''protein_bb'', 15),
      (''nucleic_bb'', 16), (''sidechain'', 17), (''protein'', 18), (''nucleic'', 19),
      (''fragments'', 20), (''residues'', 21)]"
      unfolding analysis0_def by (rule map_of_SomeD)
    then have "a \<le> 21" by (simp only: list.set insert_iff empty_iff prod.inject) (elim disjE conjE FalseE, simp_all)
    then show ?thesis by (simp add: state0_def)
  qed
  ultimately show ?thesis unfolding stored_def ran_def by blast
qed

lemma zeros0: "replicate (numAtoms mol0) False = [False, False, False, False]"
  by (simp add: mol0_def numeral_eq_Suc)

lemma select_map: "select (map P xs) xs = filter P xs"
  by (induction xs) (auto simp add: select_def)

lemma set_select_subset: "set (select m xs) \<subseteq> set xs"
  by (auto simp add: select_def dest: set_zip_rightD)

lemma same_group_int:
  "length m = length rs \<Longrightarrow>
   same_group ext (A (IntArr rs)) (A (BoolArr m)) =
     Returns (A (BoolArr (map (\<lambda>x. x \<in> set (select m rs)) rs)))"
  by (simp add: same_group_def)

lemma same_group_idem:
  assumes "length m = length rs"
  shows "same_group ext (A (IntArr rs)) (A (BoolArr (map (\<lambda>x. x \<in> set (select m rs)) rs))) =
     Returns (A (BoolArr (map (\<lambda>x. x \<in> set (select m rs)) rs)))"
proof -
  let ?V = "set (select m rs)"
  have "map (\<lambda>x. x \<in> set (select (map (\<lambda>x. x \<in> ?V) rs) rs)) rs = map (\<lambda>x. x \<in> ?V) rs"
    by (rule map_cong) (auto simp add: select_map)
  then show ?thesis by (simp add: same_group_int)
qed

lemma eval_sameas_residue:
  "an ''residues'' = Some a \<Longrightarrow>
   eval_sameas ext mol an s [Sc (StrV ''residue''), v] =
     new (same_group ext (A (cells s a)) (read s v))"
  by (simp add: eval_sameas_def item_simps molpropmap_def lookup_def)

lemma dispatch_sameas:
  "dispatch ext mol an ''sameas'' args s = finish (eval_sameas ext mol an s args) s"
  by (simp add: dispatch_def)

lemma traverse_unary:
  "traverse_ast ext mol an sub s = (Returns v, s1) \<Longrightarrow>
   traverse_ast ext mol an (Node opn [Lit t, Sub sub]) s = dispatch ext mol an opn [Sc t, v] s1"
  by simp

lemma set_select:
  "length m = length xs \<Longrightarrow> x \<in> set (select m xs) \<longleftrightarrow> (\<exists>j<length xs. m ! j \<and> xs ! j = x)"
  unfolding select_def by (force simp add: in_set_zip image_iff)









lemma index0_eq:
  "traverse_ast ext0 mol0 analysis0 (Node ''molprop_int_eq'' [Lit (StrV ''index''), Lit (IntV n)]) state0
   = (Returns (Arr 22), snd (alloc (BoolArr [0 = n, 1 = n, 2 = n, 3 = n]) state0))"
proof -
  have u: "[0..<numAtoms mol0] = [0, 1, 2, 3]" by (simp add: mol0_def numeral_eq_Suc)
  show ?thesis
    unfolding traverse_leaf2 dispatch_molprop_eq
    by (simp add: eval_molprop_eq_def item_simps molpropmap_def fn_def new_def u)
      (simp add: alloc_def state0_def)
qed







lemma fn_list_is_isin: "fn ext x (L ys) = np_isin ext x (L ys)"
  by (simp add: fn_def)

lemma fn_string_list:
  "fn ext (A (StrArr xs)) (L (map StrV ys)) = Returns (A (BoolArr (map (\<lambda>x. x \<in> set ys) xs)))"
proof -
  have "list_all is_str (map StrV ys :: 'a scalar list)" by (induction ys) auto
  moreover have "(StrV x :: 'a scalar) \<in> set (map StrV ys) \<longleftrightarrow> x \<in> set ys" for x by auto
  ultimately show ?thesis by (simp add: fn_list_is_isin)
qed

subsection \<open>The claims\<close>

text \<open>
  \<^bold>\<open>C1\<close>.  The node \<^verbatim>\<open>("molprop_str_eq", "name", ["C.*", "N"])\<close> on the example
  molecule, whose atoms are named N, CA, C+ and CB.  For a list \<^verbatim>\<open>fn\<close> always takes
  \<^verbatim>\<open>np.isin\<close>, because \<^verbatim>\<open>not isinstance(y, str)\<close> is true of a list: the result selects
  the atom N only.  The mask the specification describes selects all four atoms, the
  three names that start with C being matched by \<^verbatim>\<open>C.*\<close>.
\<close>

theorem wildcard_list_not_matched:
  "result_mask (traverse_ast ext0 mol0 analysis0
     (Node ''molprop_str_eq'' [Lit (StrV ''name''), LitList [StrV ''C.*'', StrV ''N'']]) state0)
     = Some [True, False, False, False]
   \<and> read state0 (Arr 1) = A (StrArr [''N'', ''CA'', ''C+'', ''CB''])
   \<and> wildcard_list_spec ext0 [''N'', ''CA'', ''C+'', ''CB''] [''C.*'', ''N'']
     = [True, True, True, True]"
proof -
  have r: "read state0 (Arr 1) = A (StrArr [''N'', ''CA'', ''C+'', ''CB''])"
    by (simp add: state0_def arrays0_def)
  have c: "cells state0 (Suc 0) = StrArr [''N'', ''CA'', ''C+'', ''CB'']"
    by (simp add: state0_def arrays0_def)
  have f: "fn ext0 (A (StrArr [''N'', ''CA'', ''C+'', ''CB''])) (L [StrV ''C.*'', StrV ''N''])
      = Returns (A (BoolArr [True, False, False, False]))"
    using fn_string_list [of ext0 "[''N'', ''CA'', ''C+'', ''CB'']" "[''C.*'', ''N'']"] by simp
  have 1: "result_mask (traverse_ast ext0 mol0 analysis0
     (Node ''molprop_str_eq'' [Lit (StrV ''name''), LitList [StrV ''C.*'', StrV ''N'']]) state0)
     = Some [True, False, False, False]"
    unfolding traverse_leaf2l dispatch_molprop_eq
    by (simp add: eval_molprop_eq_def item_simps molpropmap_def getattr_def mol0_def c f new_def
        result_mask_def alloc_def)
  have 2: "wildcard_list_spec ext0 [''N'', ''CA'', ''C+'', ''CB''] [''C.*'', ''N'']
     = [True, True, True, True]"
    by (simp add: wildcard_list_spec_def ext0_def re_match_prefix_def)
  show ?thesis using 1 r 2 by blast
qed




text \<open>
  \<^bold>\<open>C3\<close>.  Whenever a subtree evaluates to a boolean mask \<open>m\<close>, the node
  \<^verbatim>\<open>("logop", "not", subtree)\<close> returns an array that holds the elementwise complement
  of \<open>m\<close>.
\<close>

theorem not_is_complement:
  assumes "traverse_ast ext mol an sub s = (Returns v, s1)"
    and "read s1 v = A (BoolArr m)"
  shows "result_mask (traverse_ast ext mol an (Node ''logop'' [Lit (StrV ''not''), Sub sub]) s)
           = Some (map Not m)"
  unfolding traverse_unary [OF assms(1)] dispatch_logop
  using assms(2) by (simp add: eval_logop_def item_simps new_def result_mask_def alloc_def)

text \<open>
  On the example molecule: \<^verbatim>\<open>not sidechain\<close>.
\<close>

theorem not_is_complement_witness:
  "result_mask (traverse_ast ext0 mol0 analysis0
     (Node ''logop'' [Lit (StrV ''not''), Sub (Node ''molecule'' [Lit (StrV ''sidechain'')])]) state0)
   = Some [True, True, False, False]"
proof -
  have e: "traverse_ast ext0 mol0 analysis0 (Node ''molecule'' [Lit (StrV ''sidechain'')]) state0 =
      (Returns (Arr 17), state0)"
    unfolding traverse_leaf1 dispatch_molecule
    by (simp add: eval_molecule_def item_simps lookup_def analysis0_def)
  have r: "read state0 (Arr 17) = A (BoolArr [False, False, True, True])"
    by (simp add: state0_def arrays0_def)
  show ?thesis
    using not_is_complement [OF e r] by (simp only: list.map not_False_eq_True not_True_eq_False)
qed



text \<open>
  \<^bold>\<open>C5\<close>.  If the source subtree of a \<^verbatim>\<open>within\<close> or \<^verbatim>\<open>exwithin\<close> node evaluates
  to a mask without a true entry, then for any cutoff the node returns a mask of
  \<open>numAtoms\<close> false entries, and the count of invocations of the distance primitive is
  what it was after the evaluation of the source: the primitive is not called.
\<close>

theorem empty_source_all_false:
  assumes "stored mol an s"
    and "opn = ''within'' \<or> opn = ''exwithin''"
    and "traverse_ast ext mol an sub s = (Returns v, s1)"
    and "read s1 v = A (BoolArr m)"
    and "True \<notin> set m"
  shows "result_mask (traverse_ast ext mol an (Node opn [Lit c, Sub sub]) s)
           = Some (replicate (numAtoms mol) False)
       \<and> wd_calls (snd (traverse_ast ext mol an (Node opn [Lit c, Sub sub]) s)) = wd_calls s1"
proof -
  have v: "in_store s1 v" using assms(1,3) by (rule traverse_in_store(1))
  have r: "read (snd (alloc (BoolArr (replicate (numAtoms mol) False)) s1)) v = A (BoolArr m)"
    using read_alloc [OF v] assms(4) by simp
  have n: "\<not> list_ex (\<lambda>b. b) m" using assms(5) by (auto simp add: list_ex_iff)
  have d: "dispatch ext mol an opn [Sc c, v] s1 =
      (Returns (Arr (next_addr s1)), snd (alloc (BoolArr (replicate (numAtoms mol) False)) s1))"
    using assms(2) eval_within_empty [OF r n] by (auto simp only: dispatch_within)
  have t: "traverse_ast ext mol an (Node opn [Lit c, Sub sub]) s = dispatch ext mol an opn [Sc c, v] s1"
    using assms(3) by simp
  show ?thesis unfolding t d by (simp add: result_mask_def alloc_def)
qed

text \<open>
  On the example molecule, which has no lipid: \<^verbatim>\<open>within 5 of lipid\<close>.
\<close>

theorem empty_source_all_false_witness:
  "result_mask (traverse_ast ext0 mol0 analysis0
     (Node ''within'' [Lit (IntV 5), Sub (Node ''molecule'' [Lit (StrV ''lipid'')])]) state0)
     = Some [False, False, False, False]
   \<and> wd_calls (snd (traverse_ast ext0 mol0 analysis0
     (Node ''within'' [Lit (IntV 5), Sub (Node ''molecule'' [Lit (StrV ''lipid'')])]) state0)) = 0"
proof -
  have e: "traverse_ast ext0 mol0 analysis0 (Node ''molecule'' [Lit (StrV ''lipid'')]) state0 =
      (Returns (Arr 12), state0)"
    unfolding traverse_leaf1 dispatch_molecule
    by (simp add: eval_molecule_def item_simps lookup_def analysis0_def)
  have r: "read state0 (Arr 12) = A (BoolArr [False, False, False, False])"
    by (simp add: state0_def arrays0_def)
  have n: "True \<notin> set [False, False, False, False]" by simp
  have o: "''within'' = ''within'' \<or> ''within'' = ''exwithin''" by simp
  have w: "wd_calls state0 = 0" by (simp add: state0_def)
  show ?thesis
    using empty_source_all_false [OF stored0 o e r n, where c = "IntV 5"]
    by (simp only: zeros0 w)
qed

text \<open>
  \<^bold>\<open>C6\<close>.  If the operand of \<^verbatim>\<open>sqrt\<close> evaluates to an array of integers or of
  floats with a negative element, the node raises the \<^verbatim>\<open>RuntimeError\<close> "Negative values
  in sqrt() call".  The store is the one left by the operand: no result was computed,
  and the outcome does not depend on numpy's square root (the parameter \<open>numpy ext\<close>).
\<close>

theorem sqrt_negative_raises:
  assumes "traverse_ast ext mol an sub s = (Returns v, s1)"
    and "(\<exists>xs. read s1 v = A (IntArr xs) \<and> (\<exists>x\<in>set xs. x < 0))
       \<or> (\<exists>fs. read s1 v = A (FloatArr fs) \<and> (\<exists>x\<in>set fs. float_lt0 ext x))"
  shows "traverse_ast ext mol an (Node ''func'' [Lit (StrV ''sqrt''), Sub sub]) s =
           (Raises (RuntimeError ''Negative values in sqrt() call''), s1)"
  unfolding traverse_unary [OF assms(1)] dispatch_func
  using assms(2) by (auto simp add: eval_func_def item_simps new_def list_ex_iff)

text \<open>
  On the example molecule, whose \<^verbatim>\<open>beta\<close> values are \<open>0, -1, 2, 2\<close>: \<^verbatim>\<open>sqrt(beta)\<close>.
\<close>

theorem sqrt_negative_raises_witness:
  "traverse_ast ext0 mol0 analysis0
     (Node ''func'' [Lit (StrV ''sqrt''), Sub (Node ''numprop'' [Lit (StrV ''beta'')])]) state0 =
   (Raises (RuntimeError ''Negative values in sqrt() call''), state0)"
proof -
  have e: "traverse_ast ext0 mol0 analysis0 (Node ''numprop'' [Lit (StrV ''beta'')]) state0 =
      (Returns (Arr 10), state0)"
    unfolding traverse_leaf1 dispatch_numprop
    by (simp add: eval_numprop_def item_simps molpropmap_def getattr_def mol0_def)
  have r: "read state0 (Arr 10) = A (FloatArr [0, - 1, 2, 2])"
    by (simp add: state0_def arrays0_def)
  have n: "\<exists>x\<in>set [0, - 1, 2, 2]. float_lt0 ext0 x" by (simp add: ext0_def)
  show ?thesis using sqrt_negative_raises [OF e] r n by blast
qed

text \<open>
  \<^bold>\<open>C7\<close>.  Let the analysis hold integer residue numbers \<open>rs\<close> and let a subtree
  evaluate to a mask \<open>m\<close> over the atoms.  Then \<^verbatim>\<open>same residue as\<close> of the subtree
  returns the mask of the atoms whose residue number is that of an atom selected by
  \<open>m\<close>, and \<^verbatim>\<open>same residue as\<close> applied to that node returns the same mask again.
\<close>

theorem same_residue_idempotent:
  assumes "traverse_ast ext mol an sub s = (Returns v, s0)"
    and "read s0 v = A (BoolArr m)"
    and "an ''residues'' = Some a"
    and "a < next_addr s0"
    and "cells s0 a = IntArr rs"
    and "length m = length rs"
  shows "result_mask (traverse_ast ext mol an
           (Node ''sameas'' [Lit (StrV ''residue''), Sub sub]) s)
         = Some (map (\<lambda>x. \<exists>j<length rs. m ! j \<and> rs ! j = x) rs)
       \<and> result_mask (traverse_ast ext mol an
           (Node ''sameas'' [Lit (StrV ''residue''),
              Sub (Node ''sameas'' [Lit (StrV ''residue''), Sub sub])]) s)
         = result_mask (traverse_ast ext mol an
           (Node ''sameas'' [Lit (StrV ''residue''), Sub sub]) s)"
proof -
  note ev = eval_sameas_residue [where an = an and a = a, OF assms(3)]
  let ?r = "map (\<lambda>x. x \<in> set (select m rs)) rs"
  let ?s1 = "snd (alloc (BoolArr ?r) s0)"
  have sp: "?r = map (\<lambda>x. \<exists>j<length rs. m ! j \<and> rs ! j = x) rs"
    using set_select [OF assms(6)] by simp
  have "traverse_ast ext mol an (Node ''sameas'' [Lit (StrV ''residue''), Sub sub]) s
      = dispatch ext mol an ''sameas'' [Sc (StrV ''residue''), v] s0"
    using assms(1) by (rule traverse_unary)
  also have "\<dots> = (Returns (Arr (next_addr s0)), ?s1)"
    using assms(2,5,6) by (simp add: dispatch_sameas ev same_group_int new_def alloc_def)
  finally have inner: "traverse_ast ext mol an (Node ''sameas'' [Lit (StrV ''residue''), Sub sub]) s
      = (Returns (Arr (next_addr s0)), ?s1)" .
  have c1: "cells ?s1 a = IntArr rs" using assms(4,5) by (simp add: alloc_def)
  have r1: "read ?s1 (Arr (next_addr s0)) = A (BoolArr ?r)" by (simp add: alloc_def)
  have "traverse_ast ext mol an
           (Node ''sameas'' [Lit (StrV ''residue''),
              Sub (Node ''sameas'' [Lit (StrV ''residue''), Sub sub])]) s
      = dispatch ext mol an ''sameas'' [Sc (StrV ''residue''), Arr (next_addr s0)] ?s1"
    using inner by (rule traverse_unary)
  also have "\<dots> = (Returns (Arr (next_addr ?s1)), snd (alloc (BoolArr ?r) ?s1))"
    using c1 r1 same_group_idem [OF assms(6), of ext]
    by (simp add: dispatch_sameas ev new_def) (simp add: alloc_def)
  finally have outer: "traverse_ast ext mol an
           (Node ''sameas'' [Lit (StrV ''residue''),
              Sub (Node ''sameas'' [Lit (StrV ''residue''), Sub sub])]) s
      = (Returns (Arr (next_addr ?s1)), snd (alloc (BoolArr ?r) ?s1))" .
  have i: "result_mask (Returns (Arr (next_addr s0)), ?s1) = Some ?r"
    by (simp add: result_mask_def alloc_def)
  have o: "result_mask (Returns (Arr (next_addr ?s1)), snd (alloc (BoolArr ?r) ?s1)) = Some ?r"
    by (simp add: result_mask_def alloc_def)
  show ?thesis
    unfolding inner outer i o using sp by simp
qed

text \<open>
  On the example molecule, whose residue numbers are \<open>0, 0, 1, 1\<close>:
  \<^verbatim>\<open>same residue as same residue as index 2\<close>.
\<close>

theorem same_residue_idempotent_witness:
  "result_mask (traverse_ast ext0 mol0 analysis0
           (Node ''sameas'' [Lit (StrV ''residue''),
              Sub (Node ''sameas'' [Lit (StrV ''residue''),
                Sub (Node ''molprop_int_eq'' [Lit (StrV ''index''), Lit (IntV 2)])])]) state0)
   = Some [False, False, True, True]"
proof -
  let ?s0 = "snd (alloc (BoolArr [False, False, True, False]) state0)"
  have e: "traverse_ast ext0 mol0 analysis0
      (Node ''molprop_int_eq'' [Lit (StrV ''index''), Lit (IntV 2)]) state0 = (Returns (Arr 22), ?s0)"
    using index0_eq [of 2] by simp
  have r: "read ?s0 (Arr 22) = A (BoolArr [False, False, True, False])"
    by (simp add: alloc_def state0_def)
  have a: "analysis0 ''residues'' = Some 21" by (simp add: analysis0_def)
  have n: "21 < next_addr ?s0" by (simp add: alloc_def state0_def)
  have c: "cells ?s0 21 = IntArr [0, 0, 1, 1]" by (simp add: alloc_def state0_def arrays0_def)
  have l: "length [False, False, True, False] = length [0, 0, 1, 1 :: int]" by simp
  have v: "map (\<lambda>x. \<exists>j<length [0, 0, 1, 1 :: int]. [False, False, True, False] ! j \<and> [0, 0, 1, 1] ! j = x)
         [0, 0, 1, 1 :: int]
      = [False, False, True, True]"
  proof -
    have "(\<exists>j<length [0, 0, 1, 1 :: int]. [False, False, True, False] ! j \<and> [0, 0, 1, 1] ! j = x)
        \<longleftrightarrow> x \<in> set (select [False, False, True, False] [0, 0, 1, 1 :: int])" for x :: int
      by (rule set_select [symmetric]) simp
    then show ?thesis by (simp add: select_def)
  qed
  show ?thesis
    using same_residue_idempotent [OF e r a n c l] by (simp only: v)
qed

text \<open>
  \<^bold>\<open>C8\<close>.  Whatever the node and whatever the outcome, after the evaluation every
  array of the molecule, every array of the analysis and every coordinate tensor is as
  it was before, and so is every other array that existed.  The evaluator writes only to
  arrays it has allocated itself: \<^verbatim>\<open>within\<close> and \<^verbatim>\<open>exwithin\<close> write to their new mask.
\<close>

theorem evaluation_only_reads:
  assumes "stored mol an s" and "traverse_ast ext mol an n s = (r, s')"
  shows "(\<forall>name a. attrs mol name = Some a \<longrightarrow> cells s' a = cells s a)
       \<and> (\<forall>k a. an k = Some a \<longrightarrow> cells s' a = cells s a)
       \<and> tensors s' = tensors s
       \<and> (\<forall>a<next_addr s. cells s' a = cells s a)"
proof -
  have p: "preserved s s'" using assms(2) by (rule traverse_preserved(1))
  have "a < next_addr s" if "attrs mol name = Some a" for name a
    using assms(1) that by (auto simp add: stored_def ran_def)
  moreover have "a < next_addr s" if "an k = Some a" for k a
    using assms(1) that by (auto simp add: stored_def ran_def)
  ultimately show ?thesis using p by (simp add: preserved_def)
qed

text \<open>
  On the example molecule, for \<^verbatim>\<open>exwithin 1 of index 0\<close>, which calls the distance
  primitive and clears bits of its mask.
\<close>

theorem evaluation_only_reads_witness:
  "cells (snd (traverse_ast ext0 mol0 analysis0
      (Node ''exwithin'' [Lit (IntV 1),
         Sub (Node ''molprop_int_eq'' [Lit (StrV ''index''), Lit (IntV 0)])]) state0)) 0
     = IntArr [1, 2, 3, 4]
   \<and> tensors (snd (traverse_ast ext0 mol0 analysis0
      (Node ''exwithin'' [Lit (IntV 1),
         Sub (Node ''molprop_int_eq'' [Lit (StrV ''index''), Lit (IntV 0)])]) state0))
     = tensors state0"
proof -
  have a: "attrs mol0 ''serial'' = Some 0" by (simp add: mol0_def)
  have c: "cells state0 0 = IntArr [1, 2, 3, 4]" by (simp add: state0_def arrays0_def)
  have "cells (snd (traverse_ast ext0 mol0 analysis0
      (Node ''exwithin'' [Lit (IntV 1),
         Sub (Node ''molprop_int_eq'' [Lit (StrV ''index''), Lit (IntV 0)])]) state0)) 0
     = cells state0 0"
    using evaluation_only_reads [OF stored0 surjective_pairing] a by blast
  moreover have "tensors (snd (traverse_ast ext0 mol0 analysis0
      (Node ''exwithin'' [Lit (IntV 1),
         Sub (Node ''molprop_int_eq'' [Lit (StrV ''index''), Lit (IntV 0)])]) state0))
     = tensors state0"
    using evaluation_only_reads [OF stored0 surjective_pairing] by blast
  ultimately show ?thesis by (simp only: c)
qed

text \<open>
  \<^bold>\<open>C9\<close>.  A property-modulo node whose property name is not a key of
  \<open>molpropmap\<close> raises \<^verbatim>\<open>KeyError\<close>.  \<^verbatim>\<open>index\<close> and \<^verbatim>\<open>residue\<close> are not keys, although
  property-equals accepts them: \<^verbatim>\<open>index n\<close> returns the mask of the atom number \<open>n\<close>.
\<close>

theorem modulo_only_molpropmap:
  "(molpropmap p = None \<longrightarrow>
      traverse_ast ext mol an (Node ''molprop_int_modulo'' [Lit (StrV p), Lit v1, Lit v2]) s =
        (Raises (KeyError p), s))
   \<and> molpropmap ''index'' = None \<and> molpropmap ''residue'' = None
   \<and> traverse_ast ext mol an (Node ''molprop_int_eq'' [Lit (StrV ''index''), Lit (IntV n)]) s =
        (Returns (Arr (next_addr s)),
         snd (alloc (BoolArr (map (\<lambda>i. int i = n) [0..<numAtoms mol])) s))"
proof -
  have 1: "molpropmap ''index'' = None" "molpropmap ''residue'' = None"
    by (simp_all add: molpropmap_def)
  have 2: "traverse_ast ext mol an (Node ''molprop_int_modulo'' [Lit (StrV p), Lit v1, Lit v2]) s =
        (Raises (KeyError p), s)" if "molpropmap p = None"
    unfolding traverse_leaf3 dispatch_modulo
    using that by (simp add: eval_molprop_int_modulo_def item_simps)
  have 3: "traverse_ast ext mol an (Node ''molprop_int_eq'' [Lit (StrV ''index''), Lit (IntV n)]) s =
        (Returns (Arr (next_addr s)),
         snd (alloc (BoolArr (map (\<lambda>i. int i = n) [0..<numAtoms mol])) s))"
    unfolding traverse_leaf2 dispatch_molprop_eq
    by (simp add: eval_molprop_eq_def item_simps 1 fn_def new_def alloc_def comp_def)
  show ?thesis using 1 2 3 by blast
qed

text \<open>
  On the example molecule: \<^verbatim>\<open>index % 2 == 0\<close>.
\<close>

theorem modulo_only_molpropmap_witness:
  "traverse_ast ext0 mol0 analysis0
     (Node ''molprop_int_modulo'' [Lit (StrV ''index''), Lit (IntV 2), Lit (IntV 0)]) state0 =
   (Raises (KeyError ''index''), state0)"
  using modulo_only_molpropmap [of "''index''" ext0 mol0 analysis0 "IntV 2" "IntV 0" state0]
  by blast

text \<open>
  \<^bold>\<open>C10\<close>.  For a single string \<open>y\<close> and a string array, \<^verbatim>\<open>fn\<close> calls the regular
  expression engine exactly when \<open>y\<close> contains \<^verbatim>\<open>.*\<close>; otherwise the result is the
  elementwise equality with \<open>y\<close>, whatever other characters \<open>y\<close> contains.
\<close>

theorem single_string_match:
  "fn ext (A (StrArr xs)) (S (StrV y)) =
     (if contains ''.*'' y
      then and_then (match_each (re_match ext y) xs) (\<lambda>bs. Returns (A (BoolArr bs)))
      else Returns (A (BoolArr (map (\<lambda>xx. xx = y) xs))))"
  by (simp add: fn_def)

text \<open>
  \<^verbatim>\<open>C+\<close> selects the atom named \<^verbatim>\<open>C+\<close> only, \<^verbatim>\<open>C.*\<close> every name that starts with C.
\<close>

theorem single_string_match_witness:
  "fn ext0 (A (StrArr [''N'', ''CA'', ''C+'', ''CB''])) (S (StrV ''C+'')) =
     Returns (A (BoolArr [False, False, True, False]))
   \<and> fn ext0 (A (StrArr [''N'', ''CA'', ''C+'', ''CB''])) (S (StrV ''C.*'')) =
     Returns (A (BoolArr [False, True, True, True]))"
proof -
  have 1: "\<not> contains ''.*'' ''C+''" by simp
  have 2: "contains ''.*'' ''C.*''" by simp
  have 3: "match_each (re_match ext0 ''C.*'') [''N'', ''CA'', ''C+'', ''CB'']
      = Returns [False, True, True, True]"
    by (simp add: ext0_def re_match_prefix_def)
  show ?thesis
    using single_string_match [of ext0 "[''N'', ''CA'', ''C+'', ''CB'']" "''C+''"]
      single_string_match [of ext0 "[''N'', ''CA'', ''C+'', ''CB'']" "''C.*''"]
    by (simp only: 1 2 3 if_True if_False and_then.simps) simp
qed

end
